theory Spec2Isabelle
  imports Complex_Main
begin

section \<open>The metrics evaluator of \<^verbatim>\<open>advanced_metrics_evaluation.py\<close>\<close>

text \<open>
  The module computes forecast-accuracy statistics over two NumPy arrays and FinOps
  ratios over scalars. The embedding below keeps the structure of the Python code:
  \<^item> a finite floating-point number is the \<^typ>\<open>real\<close> number it stands for; the input
    arrays and scalars hold finite numbers;
  \<^item> the exceptional results of floating-point arithmetic are values of their own: a
    NumPy division by zero yields \<open>inf\<close> or \<open>nan\<close> (the module silences the warnings
    with \<^verbatim>\<open>warnings.filterwarnings('ignore')\<close>), the mean of an empty array is \<open>nan\<close>,
    and a result beyond the largest binary64 number is \<open>inf\<close>;
  \<^item> every exception raised on the way is a value \<open>Inl e\<close> of the result;
  \<^item> the scalar computations (the coverage quotient, the FinOps ratios, the growth rate,
    and the rounding to decimals applied to them) round to the nearest binary64 number
    after every operation, as the machine does;
  \<^item> the sums, means and medians over whole arrays are computed on the exact numbers:
    the order in which NumPy adds the entries of an array is outside the model, and what
    is proved about them concerns exceptional values and differences that are exactly 0.
\<close>

subsection \<open>Python and NumPy values\<close>

datatype py_error = ValueError | IndexError | TypeError | ZeroDivisionError | OverflowError

datatype npfloat = Fin real | PInf | NInf | NaN

definition bind_err :: "py_error + 'a \<Rightarrow> ('a \<Rightarrow> py_error + 'b) \<Rightarrow> py_error + 'b" where
  "bind_err m f = (case m of Inl e \<Rightarrow> Inl e | Inr v \<Rightarrow> f v)"

text \<open>Rounding to the nearest integer, ties to the even neighbour (C's \<^verbatim>\<open>rint\<close>).\<close>

definition rint :: "real \<Rightarrow> int" where
  "rint y =
     (let f = \<lfloor>y\<rfloor>; d = y - of_int f
      in if d < 1 / 2 then f
         else if 1 / 2 < d then f + 1
         else if even f then f else f + 1)"

text \<open>
  \<^verbatim>\<open>round(x, n)\<close> on a finite number. On exact values Python's correctly rounded
  \<^verbatim>\<open>float.__round__\<close> and NumPy's \<^verbatim>\<open>rint(x * 10**n) / 10**n\<close> agree.
\<close>

definition py_round :: "real \<Rightarrow> nat \<Rightarrow> real" where
  "py_round x n = of_int (rint (x * 10 ^ n)) / 10 ^ n"

text \<open>\<^verbatim>\<open>round(x, n)\<close> on a float that may be exceptional: nan and the infinities round to themselves.\<close>

fun np_round :: "npfloat \<Rightarrow> nat \<Rightarrow> npfloat" where
  "np_round (Fin x) n = Fin (py_round x n)"
| "np_round PInf n = PInf"
| "np_round NInf n = NInf"
| "np_round NaN n = NaN"

text \<open>
  True division of NumPy scalars. Zero is taken as positive zero: the divisors of this
  module that can vanish are sums and means of absolute values, lengths, and a mean that
  the code compares with 0 first.
\<close>

fun np_divide :: "npfloat \<Rightarrow> npfloat \<Rightarrow> npfloat" where
  "np_divide (Fin x) (Fin y) =
     (if y \<noteq> 0 then Fin (x / y)
      else if x = 0 then NaN
      else if 0 < x then PInf else NInf)"
| "np_divide (Fin x) PInf = Fin 0"
| "np_divide (Fin x) NInf = Fin 0"
| "np_divide PInf (Fin y) = (if 0 \<le> y then PInf else NInf)"
| "np_divide NInf (Fin y) = (if 0 \<le> y then NInf else PInf)"
| "np_divide PInf PInf = NaN"
| "np_divide PInf NInf = NaN"
| "np_divide NInf PInf = NaN"
| "np_divide NInf NInf = NaN"
| "np_divide NaN y = NaN"
| "np_divide x NaN = NaN"

text \<open>Multiplication of a float by a finite constant (the module only scales by 100).\<close>

fun np_scale :: "npfloat \<Rightarrow> real \<Rightarrow> npfloat" where
  "np_scale (Fin x) c = Fin (x * c)"
| "np_scale PInf c = (if 0 < c then PInf else if c < 0 then NInf else NaN)"
| "np_scale NInf c = (if 0 < c then NInf else if c < 0 then PInf else NaN)"
| "np_scale NaN c = NaN"

text \<open>\<^verbatim>\<open>x != 0\<close> on a float: true for nan and for the infinities.\<close>

fun np_nonzero :: "npfloat \<Rightarrow> bool" where
  "np_nonzero (Fin x) = (x \<noteq> 0)"
| "np_nonzero PInf = True"
| "np_nonzero NInf = True"
| "np_nonzero NaN = True"

text \<open>\<^verbatim>\<open>x >= y\<close> on floats: every comparison with nan is false.\<close>

fun np_ge :: "npfloat \<Rightarrow> npfloat \<Rightarrow> bool" where
  "np_ge NaN y = False"
| "np_ge x NaN = False"
| "np_ge PInf y = True"
| "np_ge x NInf = True"
| "np_ge NInf y = False"
| "np_ge x PInf = False"
| "np_ge (Fin x) (Fin y) = (y \<le> x)"

text \<open>\<^verbatim>\<open>x < y\<close> on floats.\<close>

fun np_lt :: "npfloat \<Rightarrow> npfloat \<Rightarrow> bool" where
  "np_lt NaN y = False"
| "np_lt x NaN = False"
| "np_lt PInf y = False"
| "np_lt x NInf = False"
| "np_lt NInf y = True"
| "np_lt x PInf = True"
| "np_lt (Fin x) (Fin y) = (x < y)"

subsection \<open>Binary64 arithmetic\<close>

text \<open>
  A binary64 number is an integer of at most 53 bits times a power of two that is at
  least \<open>2\<^bsup>-1074\<^esup>\<close>. \<open>fl_exp x\<close> is the exponent of the binade of \<open>x\<close> (the subnormal numbers
  share the exponent -1022), \<open>fl_ulp x\<close> the distance between the binary64 numbers of
  that binade, and \<open>rn64 x\<close> the binary64 number nearest to \<open>x\<close>, ties to the even
  neighbour. Zero has no sign here.
\<close>

definition fl_exp :: "real \<Rightarrow> int" where
  "fl_exp x = max \<lfloor>log 2 \<bar>x\<bar>\<rfloor> (- 1022)"

definition fl_ulp :: "real \<Rightarrow> real" where
  "fl_ulp x = 2 powi (fl_exp x - 52)"

definition rn64 :: "real \<Rightarrow> real" where
  "rn64 x = (if x = 0 then 0 else of_int (rint (x / fl_ulp x)) * fl_ulp x)"

text \<open>The largest binary64 number, and the result of an operation whose exact value is \<open>x\<close>.\<close>

definition max_float :: real where
  "max_float = (2 ^ 53 - 1) * 2 ^ 971"

definition fl64 :: "real \<Rightarrow> npfloat" where
  "fl64 x =
     (let r = rn64 x
      in if max_float < r then PInf else if r < - max_float then NInf else Fin r)"

text \<open>
  Division with the quotient rounded. A zero divisor gives inf or nan: a NumPy scalar
  does not raise, and the Python divisions of this module are guarded by a comparison.
\<close>

fun fl_divide :: "npfloat \<Rightarrow> npfloat \<Rightarrow> npfloat" where
  "fl_divide (Fin x) (Fin y) =
     (if y \<noteq> 0 then fl64 (x / y)
      else if x = 0 then NaN
      else if 0 < x then PInf else NInf)"
| "fl_divide (Fin x) PInf = Fin 0"
| "fl_divide (Fin x) NInf = Fin 0"
| "fl_divide PInf (Fin y) = (if 0 \<le> y then PInf else NInf)"
| "fl_divide NInf (Fin y) = (if 0 \<le> y then NInf else PInf)"
| "fl_divide PInf PInf = NaN"
| "fl_divide PInf NInf = NaN"
| "fl_divide NInf PInf = NaN"
| "fl_divide NInf NInf = NaN"
| "fl_divide NaN y = NaN"
| "fl_divide x NaN = NaN"

text \<open>Multiplication by a finite constant and addition of a finite constant, rounded.\<close>

fun fl_scale :: "npfloat \<Rightarrow> real \<Rightarrow> npfloat" where
  "fl_scale (Fin x) c = fl64 (x * c)"
| "fl_scale PInf c = (if 0 < c then PInf else if c < 0 then NInf else NaN)"
| "fl_scale NInf c = (if 0 < c then NInf else if c < 0 then PInf else NaN)"
| "fl_scale NaN c = NaN"

fun fl_shift :: "npfloat \<Rightarrow> real \<Rightarrow> npfloat" where
  "fl_shift (Fin x) c = fl64 (x + c)"
| "fl_shift PInf c = PInf"
| "fl_shift NInf c = NInf"
| "fl_shift NaN c = NaN"

fun np_neg :: "npfloat \<Rightarrow> npfloat" where
  "np_neg (Fin x) = Fin (- x)"
| "np_neg PInf = NInf"
| "np_neg NInf = PInf"
| "np_neg NaN = NaN"

text \<open>
  A scalar is a Python number (\<^verbatim>\<open>int\<close>, \<^verbatim>\<open>float\<close>) or a NumPy scalar
  (\<^verbatim>\<open>np.float64\<close>, as the sums and means of a data frame are). The two kinds differ in
  \<^verbatim>\<open>round\<close> and in \<^verbatim>\<open>**\<close>. An operation with one NumPy operand is a NumPy operation.
\<close>

datatype num_kind = PyNumber | NpScalar

text \<open>
  \<^verbatim>\<open>round(x, n)\<close> of a float, \<open>n \<ge> 0\<close>. Both kinds scale \<open>x\<close> by \<open>10\<^sup>n\<close>, take the nearest
  integer (ties to even) and return the binary64 number nearest to that integer over
  \<open>10\<^sup>n\<close>. Python's \<^verbatim>\<open>float.__round__\<close> is correctly rounded: it scales the exact value of
  \<open>x\<close>. NumPy's \<^verbatim>\<open>np.float64.__round__\<close> computes
  \<^verbatim>\<open>np.rint(x * 10**n) / 10**n\<close>, so its scaled value is rounded to binary64 first.
  nan and the infinities round to themselves.
\<close>

definition scaled :: "num_kind \<Rightarrow> real \<Rightarrow> nat \<Rightarrow> npfloat" where
  "scaled k x n = (case k of PyNumber \<Rightarrow> Fin (x * 10 ^ n) | NpScalar \<Rightarrow> fl64 (x * 10 ^ n))"

fun round_as :: "num_kind \<Rightarrow> npfloat \<Rightarrow> nat \<Rightarrow> npfloat" where
  "round_as k (Fin x) n =
     (case scaled k x n of
        Fin q \<Rightarrow> fl64 (of_int (rint q) / 10 ^ n)
      | PInf \<Rightarrow> PInf
      | NInf \<Rightarrow> NInf
      | NaN \<Rightarrow> NaN)"
| "round_as k PInf n = PInf"
| "round_as k NInf n = NInf"
| "round_as k NaN n = NaN"

subsection \<open>NumPy arrays\<close>

text \<open>
  An elementwise operation on two one-dimensional arrays broadcasts: the shapes must be
  equal unless one of the arrays has exactly one element, which is then repeated.
  Any other pair of shapes raises \<^verbatim>\<open>ValueError: operands could not be broadcast together\<close>.
\<close>

definition np_broadcast :: "('a \<Rightarrow> 'b \<Rightarrow> 'c) \<Rightarrow> 'a list \<Rightarrow> 'b list \<Rightarrow> py_error + 'c list" where
  "np_broadcast f xs ys =
     (if length xs = length ys then Inr (map2 f xs ys)
      else if length xs = 1 then Inr (map (f (hd xs)) ys)
      else if length ys = 1 then Inr (map (\<lambda>x. f x (hd ys)) xs)
      else Inl ValueError)"

text \<open>
  Indexing with a boolean mask, \<^verbatim>\<open>xs[mask]\<close>: the result keeps the entries whose mask is
  true. A mask of another length than the array raises
  \<^verbatim>\<open>IndexError: boolean index did not match indexed array\<close>, except the mask of length 0:
  NumPy checks the length of a boolean index only when it is positive, and an empty
  mask selects nothing from an array of any length.
\<close>

definition np_mask :: "'a list \<Rightarrow> bool list \<Rightarrow> py_error + 'a list" where
  "np_mask xs msk =
     (if length msk = length xs \<or> msk = [] then Inr (map fst (filter snd (zip xs msk)))
      else Inl IndexError)"

text \<open>\<^verbatim>\<open>np.mean\<close>: the mean of an empty array is nan (0/0).\<close>

definition np_mean :: "real list \<Rightarrow> npfloat" where
  "np_mean xs = (if xs = [] then NaN else Fin (sum_list xs / real (length xs)))"

text \<open>\<^verbatim>\<open>np.median\<close>: the middle of the sorted array, nan on an empty array.\<close>

definition np_median :: "real list \<Rightarrow> npfloat" where
  "np_median xs =
     (if xs = [] then NaN
      else let s = sort xs; n = length xs
           in if even n then Fin ((s ! (n div 2 - 1) + s ! (n div 2)) / 2)
              else Fin (s ! (n div 2)))"

text \<open>\<^verbatim>\<open>np.sqrt\<close> of a finite number: nan below zero.\<close>

definition np_sqrt :: "real \<Rightarrow> npfloat" where
  "np_sqrt x = (if x < 0 then NaN else Fin (sqrt x))"

subsection \<open>The regression metrics of scikit-learn\<close>

text \<open>
  \<^verbatim>\<open>mean_absolute_error\<close>, \<^verbatim>\<open>mean_squared_error\<close> and \<^verbatim>\<open>r2_score\<close> validate their
  arguments first: arrays of different lengths and arrays with no sample raise
  \<^verbatim>\<open>ValueError\<close> (\<^verbatim>\<open>check_consistent_length\<close>, \<^verbatim>\<open>check_array\<close>).
\<close>

definition check_reg_targets :: "real list \<Rightarrow> real list \<Rightarrow> py_error + unit" where
  "check_reg_targets y_true y_pred =
     (if length y_true \<noteq> length y_pred then Inl ValueError
      else if y_true = [] then Inl ValueError
      else Inr ())"

definition mean_absolute_error :: "real list \<Rightarrow> real list \<Rightarrow> py_error + real" where
  "mean_absolute_error y_true y_pred =
     bind_err (check_reg_targets y_true y_pred) (\<lambda>_.
       Inr (sum_list (map2 (\<lambda>t p. \<bar>p - t\<bar>) y_true y_pred) / real (length y_true)))"

definition mean_squared_error :: "real list \<Rightarrow> real list \<Rightarrow> py_error + real" where
  "mean_squared_error y_true y_pred =
     bind_err (check_reg_targets y_true y_pred) (\<lambda>_.
       Inr (sum_list (map2 (\<lambda>t p. (t - p)\<^sup>2) y_true y_pred) / real (length y_true)))"

text \<open>
  \<^verbatim>\<open>r2_score\<close> (with its default \<^verbatim>\<open>force_finite=True\<close>): with fewer than two samples
  the score is not defined and the function returns nan; a zero residual sum gives 1, a
  zero total sum with a nonzero residual sum gives 0.
\<close>

definition r2_score :: "real list \<Rightarrow> real list \<Rightarrow> py_error + npfloat" where
  "r2_score y_true y_pred =
     bind_err (check_reg_targets y_true y_pred) (\<lambda>_.
       if length y_pred < 2 then Inr NaN
       else
         let numerator = sum_list (map2 (\<lambda>t p. (t - p)\<^sup>2) y_true y_pred);
             avg = sum_list y_true / real (length y_true);
             denominator = sum_list (map (\<lambda>t. (t - avg)\<^sup>2) y_true)
         in if numerator \<noteq> 0 \<and> denominator \<noteq> 0 then Inr (Fin (1 - numerator / denominator))
            else if numerator \<noteq> 0 then Inr (Fin 0)
            else Inr (Fin 1))"

subsection \<open>The evaluator\<close>

record evaluator =
  actual :: "real list"
  predicted :: "real list"
  forecast_lower :: "real list option"
  forecast_upper :: "real list option"

text \<open>\<^verbatim>\<open>__init__\<close> stores the four arrays as they come; it checks nothing.\<close>

definition init :: "real list \<Rightarrow> real list \<Rightarrow> real list option \<Rightarrow> real list option \<Rightarrow> evaluator" where
  "init a p lo up = \<lparr>actual = a, predicted = p, forecast_lower = lo, forecast_upper = up\<rparr>"

definition calculate_mape :: "evaluator \<Rightarrow> py_error + npfloat" where
  "calculate_mape e =
     (let msk = map (\<lambda>a. a \<noteq> 0) (actual e) in
      bind_err (np_mask (actual e) msk) (\<lambda>am.
      bind_err (np_mask (predicted e) msk) (\<lambda>pm.
      bind_err (np_broadcast (-) am pm) (\<lambda>diff.
      bind_err (np_mask (actual e) msk) (\<lambda>am'.
      bind_err (np_broadcast (/) diff am') (\<lambda>q.
        Inr (np_round (np_scale (np_mean (map abs q)) 100) 2)))))))"

definition calculate_smape :: "evaluator \<Rightarrow> py_error + npfloat" where
  "calculate_smape e =
     bind_err (np_broadcast (-) (actual e) (predicted e)) (\<lambda>diff.
     let numerator = map abs diff in
     bind_err (np_broadcast (+) (map abs (actual e)) (map abs (predicted e))) (\<lambda>s.
     let denominator = map (\<lambda>x. x / 2) s;
         msk = map (\<lambda>d. d \<noteq> 0) denominator in
     bind_err (np_mask numerator msk) (\<lambda>nm.
     bind_err (np_mask denominator msk) (\<lambda>dm.
     bind_err (np_broadcast (/) nm dm) (\<lambda>q.
       Inr (np_round (np_scale (np_mean q) 100) 2))))))"

definition calculate_wape :: "evaluator \<Rightarrow> py_error + npfloat" where
  "calculate_wape e =
     bind_err (np_broadcast (-) (actual e) (predicted e)) (\<lambda>diff.
       Inr (np_round
              (np_scale (np_divide (Fin (sum_list (map abs diff)))
                                   (Fin (sum_list (map abs (actual e))))) 100) 2))"

definition calculate_mae :: "evaluator \<Rightarrow> py_error + npfloat" where
  "calculate_mae e =
     bind_err (mean_absolute_error (actual e) (predicted e)) (\<lambda>mae.
       Inr (np_round (Fin mae) 2))"

definition calculate_rmse :: "evaluator \<Rightarrow> py_error + npfloat" where
  "calculate_rmse e =
     bind_err (mean_squared_error (actual e) (predicted e)) (\<lambda>mse.
       Inr (np_round (np_sqrt mse) 2))"

definition calculate_mdape :: "evaluator \<Rightarrow> py_error + npfloat" where
  "calculate_mdape e =
     (let msk = map (\<lambda>a. a \<noteq> 0) (actual e) in
      bind_err (np_mask (actual e) msk) (\<lambda>am.
      bind_err (np_mask (predicted e) msk) (\<lambda>pm.
      bind_err (np_broadcast (-) am pm) (\<lambda>diff.
      bind_err (np_mask (actual e) msk) (\<lambda>am'.
      bind_err (np_broadcast (/) diff am') (\<lambda>q.
      let ape = map (\<lambda>x. \<bar>x\<bar> * 100) q in
        Inr (np_round (np_median ape) 2)))))))"

definition calculate_r2 :: "evaluator \<Rightarrow> py_error + npfloat" where
  "calculate_r2 e =
     bind_err (r2_score (actual e) (predicted e)) (\<lambda>r2.
       Inr (np_round r2 3))"

definition calculate_bias :: "evaluator \<Rightarrow> py_error + npfloat" where
  "calculate_bias e =
     bind_err (np_broadcast (-) (predicted e) (actual e)) (\<lambda>diff.
       Inr (np_round (np_mean diff) 2))"

definition calculate_bias_percentage :: "evaluator \<Rightarrow> py_error + npfloat" where
  "calculate_bias_percentage e =
     (let mean_actual = np_mean (actual e) in
      bind_err (np_broadcast (-) (predicted e) (actual e)) (\<lambda>diff.
      let bias = np_mean diff;
          bias_pct = (if np_nonzero mean_actual
                      then np_scale (np_divide bias mean_actual) 100 else Fin 0)
      in Inr (np_round bias_pct 2)))"

text \<open>
  \<^verbatim>\<open>calculate_picp\<close> returns \<^verbatim>\<open>None\<close> without both bounds. The count of the entries
  inside the band, a NumPy integer, is divided by \<^verbatim>\<open>len(self.actual)\<close>: a binary64
  division (counts and lengths are far below \<open>2\<^bsup>53\<^esup>\<close> and convert exactly), 0/0 being nan.
  The quotient is multiplied by 100 and rounded by NumPy's \<^verbatim>\<open>round\<close>.
\<close>

definition calculate_picp :: "evaluator \<Rightarrow> py_error + npfloat option" where
  "calculate_picp e =
     (case (forecast_lower e, forecast_upper e) of
        (Some lo, Some up) \<Rightarrow>
          bind_err (np_broadcast (\<lambda>a l. l \<le> a) (actual e) lo) (\<lambda>ge.
          bind_err (np_broadcast (\<lambda>a u. a \<le> u) (actual e) up) (\<lambda>le.
          bind_err (np_broadcast (\<and>) ge le) (\<lambda>both.
          let inside_interval = length (filter id both);
              picp = fl_scale (fl_divide (Fin (real inside_interval))
                                         (Fin (real (length (actual e))))) 100
          in Inr (Some (round_as NpScalar picp 2)))))
      | _ \<Rightarrow> Inr None)"

text \<open>
  The number of entries of \<open>a\<close> that lie inside their band, both ends included. This is
  the count in the words of the specification; \<^const>\<open>calculate_picp\<close> above computes it
  with array operations, and the two are compared below.
\<close>

definition inside_count :: "real list \<Rightarrow> real list \<Rightarrow> real list \<Rightarrow> nat" where
  "inside_count a lo up = length (filter (\<lambda>(x, l, u). l \<le> x \<and> x \<le> u) (zip a (zip lo up)))"

definition calculate_mase :: "evaluator \<Rightarrow> real list \<Rightarrow> py_error + npfloat" where
  "calculate_mase e naive_forecast =
     bind_err (np_broadcast (-) (actual e) (predicted e)) (\<lambda>diff.
     let mae_model = np_mean (map abs diff);
         mae_naive = np_mean (map abs naive_forecast);
         mase = (if np_nonzero mae_naive then np_divide mae_model mae_naive else PInf)
     in Inr (np_round mase 3))"

text \<open>
  The key of the R-squared entry, byte for byte as the source file spells it (the letter R, the
  UTF-8 bytes C2 AC and E2 89 A4, then \<^verbatim>\<open> Score\<close>).
\<close>

definition r2_key :: string where
  "r2_key = CHR ''R'' # CHR 0xC2 # CHR 0xAC # CHR 0xE2 # CHR 0x89 # CHR 0xA4 # '' Score''"

text \<open>
  The dictionary literal of \<^verbatim>\<open>get_all_forecast_metrics\<close> evaluates its ten entries in
  order; the first call that raises ends the whole operation. Python's \<^verbatim>\<open>None\<close> is
  \<^term>\<open>None\<close>.
\<close>

definition get_all_forecast_metrics :: "evaluator \<Rightarrow> py_error + (string \<times> npfloat option) list" where
  "get_all_forecast_metrics e =
     bind_err (calculate_mape e) (\<lambda>mape.
     bind_err (calculate_smape e) (\<lambda>smape.
     bind_err (calculate_wape e) (\<lambda>wape.
     bind_err (calculate_mae e) (\<lambda>mae.
     bind_err (calculate_rmse e) (\<lambda>rmse.
     bind_err (calculate_mdape e) (\<lambda>mdape.
     bind_err (calculate_r2 e) (\<lambda>r2.
     bind_err (calculate_bias e) (\<lambda>bias.
     bind_err (calculate_bias_percentage e) (\<lambda>bias_pct.
     bind_err (calculate_picp e) (\<lambda>picp.
       Inr [(''MAPE (%)'', Some mape),
            (''sMAPE (%)'', Some smape),
            (''WAPE (%)'', Some wape),
            (''MAE (INR)'', Some mae),
            (''RMSE (INR)'', Some rmse),
            (''MdAPE (%)'', Some mdape),
            (r2_key, Some r2),
            (''Bias (INR)'', Some bias),
            (''Bias (%)'', Some bias_pct),
            (''PICP (%)'', picp)]))))))))))"

subsection \<open>FinOps KPIs\<close>

text \<open>
  The static methods take scalars; the first argument of the model tells their kind.
  The divisions are guarded by the comparison that precedes them. Every operation rounds
  to binary64 (on Python integers below \<open>2\<^bsup>53\<^esup>\<close> the difference and the rounding are
  exact, and so is their image here). \<^verbatim>\<open>round(0, 2)\<close> of the integer 0 is 0.
\<close>

definition calculate_waste_rate :: "num_kind \<Rightarrow> real \<Rightarrow> real \<Rightarrow> npfloat" where
  "calculate_waste_rate k total_cost idle_cost =
     (if 0 < total_cost then round_as k (fl_scale (fl64 (idle_cost / total_cost)) 100) 2
      else Fin 0)"

record budget_variance =
  variance_inr :: npfloat
  variance_pct :: npfloat

definition calculate_budget_variance :: "num_kind \<Rightarrow> real \<Rightarrow> real \<Rightarrow> budget_variance" where
  "calculate_budget_variance k actual_cost budgeted_cost =
     (let variance = fl64 (actual_cost - budgeted_cost)
      in \<lparr>variance_inr = round_as k variance 2,
          variance_pct =
            (if 0 < budgeted_cost
             then round_as k (fl_scale (fl_divide variance (Fin budgeted_cost)) 100) 2
             else Fin 0)\<rparr>)"

text \<open>
  The power operator \<^verbatim>\<open>x ** y\<close> on floats, with the case analysis of CPython's
  \<^verbatim>\<open>float_pow\<close>, which C's \<^verbatim>\<open>pow\<close> (used for a NumPy scalar) shares but for the
  errors. A negative base with a non-integral exponent has no real power: on Python
  numbers the result is a \<^verbatim>\<open>complex\<close>, on a NumPy scalar it is nan. An infinite
  result of a finite power raises \<^verbatim>\<open>OverflowError\<close> on Python numbers and is inf on a
  NumPy scalar; a zero base with a negative exponent raises \<^verbatim>\<open>ZeroDivisionError\<close> on
  Python numbers and is inf on a NumPy scalar. The power of a positive base is taken
  as correctly rounded.
\<close>

datatype py_number = PyFloat npfloat | PyComplex

definition is_integral :: "real \<Rightarrow> bool" where
  "is_integral y \<longleftrightarrow> of_int \<lfloor>y\<rfloor> = y"

definition is_odd_integer :: "real \<Rightarrow> bool" where
  "is_odd_integer y \<longleftrightarrow> is_integral y \<and> odd \<lfloor>y\<rfloor>"

definition libm_pow :: "real \<Rightarrow> real \<Rightarrow> npfloat" where
  "libm_pow v w = fl64 (v powr w)"

definition pow_result :: "num_kind \<Rightarrow> npfloat \<Rightarrow> py_error + py_number" where
  "pow_result k r =
     (case k of
        NpScalar \<Rightarrow> Inr (PyFloat r)
      | PyNumber \<Rightarrow>
          (case r of
             PInf \<Rightarrow> Inl OverflowError
           | NInf \<Rightarrow> Inl OverflowError
           | _ \<Rightarrow> Inr (PyFloat r)))"

definition pow_finite :: "num_kind \<Rightarrow> real \<Rightarrow> real \<Rightarrow> py_error + py_number" where
  "pow_finite k v w =
     (if w = 0 then Inr (PyFloat (Fin 1))
      else if v = 0 then
        (if w < 0 then
           (case k of PyNumber \<Rightarrow> Inl ZeroDivisionError | NpScalar \<Rightarrow> Inr (PyFloat PInf))
         else Inr (PyFloat (Fin 0)))
      else if v < 0 \<and> \<not> is_integral w then
        (case k of
           PyNumber \<Rightarrow>
             (case libm_pow \<bar>v\<bar> w of
                Fin r \<Rightarrow> Inr PyComplex
              | _ \<Rightarrow> Inl OverflowError)
         | NpScalar \<Rightarrow> Inr (PyFloat NaN))
      else if \<bar>v\<bar> = 1 then
        Inr (PyFloat (Fin (if v < 0 \<and> is_odd_integer w then - 1 else 1)))
      else
        pow_result k
          (if v < 0 \<and> is_odd_integer w then np_neg (libm_pow \<bar>v\<bar> w) else libm_pow \<bar>v\<bar> w))"

definition py_pow :: "num_kind \<Rightarrow> npfloat \<Rightarrow> npfloat \<Rightarrow> py_error + py_number" where
  "py_pow k x y =
     (case y of
        Fin w \<Rightarrow>
          (case x of
             Fin v \<Rightarrow> pow_finite k v w
           | PInf \<Rightarrow> Inr (PyFloat (if w = 0 then Fin 1 else if 0 < w then PInf else Fin 0))
           | NInf \<Rightarrow>
               Inr (PyFloat (if w = 0 then Fin 1
                             else if 0 < w then (if is_odd_integer w then NInf else PInf)
                             else Fin 0))
           | NaN \<Rightarrow> Inr (PyFloat (if w = 0 then Fin 1 else NaN)))
      | PInf \<Rightarrow>
          (case x of
             Fin v \<Rightarrow>
               Inr (PyFloat (if \<bar>v\<bar> = 1 then Fin 1 else if 1 < \<bar>v\<bar> then PInf else Fin 0))
           | NaN \<Rightarrow> Inr (PyFloat NaN)
           | _ \<Rightarrow> Inr (PyFloat PInf))
      | NInf \<Rightarrow>
          (case x of
             Fin v \<Rightarrow>
               Inr (PyFloat (if \<bar>v\<bar> = 1 then Fin 1 else if 1 < \<bar>v\<bar> then Fin 0 else PInf))
           | NaN \<Rightarrow> Inr (PyFloat NaN)
           | _ \<Rightarrow> Inr (PyFloat (Fin 0)))
      | NaN \<Rightarrow> Inr (PyFloat (if x = Fin 1 then Fin 1 else NaN)))"

text \<open>
  \<^verbatim>\<open>calculate_cagr\<close>. The ratio and the exponent are binary64 quotients. Subtracting 1
  from a \<^verbatim>\<open>complex\<close> and multiplying it by 100 do not raise; \<^verbatim>\<open>round\<close> of a
  \<^verbatim>\<open>complex\<close> raises \<^verbatim>\<open>TypeError\<close>.
\<close>

definition calculate_cagr :: "num_kind \<Rightarrow> real \<Rightarrow> real \<Rightarrow> real \<Rightarrow> py_error + npfloat" where
  "calculate_cagr k initial_cost final_cost num_years =
     (if initial_cost \<le> 0 \<or> num_years \<le> 0 then Inr (Fin 0)
      else
        bind_err (py_pow k (fl64 (final_cost / initial_cost)) (fl64 (1 / num_years))) (\<lambda>p.
          case p of
            PyFloat v \<Rightarrow> Inr (round_as k (fl_scale (fl_shift v (- 1)) 100) 2)
          | PyComplex \<Rightarrow> Inl TypeError))"

section \<open>Properties\<close>

subsection \<open>Rounding\<close>

lemma rint_of_int: "rint (of_int k) = k"
  by (simp add: rint_def)

lemma py_round_of_int: "py_round (of_int k) n = of_int k"
proof -
  have "(of_int k :: real) * 10 ^ n = of_int (k * 10 ^ n)"
    by simp
  then have "rint (of_int k * 10 ^ n) = k * 10 ^ n"
    by (simp only: rint_of_int)
  then show ?thesis
    by (simp add: py_round_def)
qed

lemma py_round_0: "py_round 0 n = 0"
  using py_round_of_int [of 0 n] by simp

lemma py_round_numeral: "py_round (numeral w) n = numeral w"
  using py_round_of_int [of "numeral w" n] by simp


lemma rint_close: "\<bar>of_int (rint y) - y\<bar> \<le> 1 / 2"
  unfolding rint_def Let_def by (auto; linarith)

lemma py_round_close: "\<bar>py_round x 2 - x\<bar> \<le> 1 / 200"
proof -
  have "\<bar>of_int (rint (x * 100)) - x * 100\<bar> \<le> 1 / 2"
    by (rule rint_close)
  then show ?thesis
    unfolding py_round_def by (simp add: field_simps abs_le_iff)
qed

subsection \<open>Arrays\<close>










lemma sum_abs_nonneg: "0 \<le> sum_list (map abs (xs :: real list))"
  by (induction xs) simp_all


subsection \<open>Zero denominators and empty arrays\<close>

lemmas eval_defs = init_def bind_err_def np_broadcast_def np_mask_def np_mean_def np_median_def
  np_sqrt_def check_reg_targets_def mean_absolute_error_def mean_squared_error_def r2_score_def

text \<open>
  Whenever the actual values sum to zero in absolute value, \<^verbatim>\<open>calculate_wape\<close> divides by
  zero and returns nan or inf.
\<close>

lemma wape_zero_denominator_general:
  assumes "length a = length p" and "sum_list (map abs a) = 0"
  shows "calculate_wape (init a p lo up)
           = Inr (if sum_list (map abs (map2 (-) a p)) = 0 then NaN else PInf)"
proof -
  have "0 \<le> sum_list (map abs (map2 (-) a p))"
    by (rule sum_abs_nonneg)
  then show ?thesis
    using assms by (auto simp: calculate_wape_def init_def bind_err_def np_broadcast_def)
qed

text \<open>
  Claim C1 asks that \<^verbatim>\<open>calculate_wape\<close> return a defined sentinel, and neither nan nor an
  infinity, when the sum of \<open>|actual|\<close> is zero. The division is not guarded: for
  \<open>actual = [0, 0]\<close> the result is nan with \<open>predicted = [0, 0]\<close> and inf with
  \<open>predicted = [3, 1]\<close>.
\<close>

theorem wape_zero_denominator:
  "calculate_wape (init [0, 0] [0, 0] None None) = Inr NaN
   \<and> calculate_wape (init [0, 0] [3, 1] None None) = Inr PInf"
  by (simp add: calculate_wape_def eval_defs)

text \<open>
  Claim C2 asks that no metric raise on empty sequences or zero denominators and that
  each return its fallback value. On empty arrays the three scikit-learn metrics raise
  and the other six return nan; on an all-zero actual series MAPE, MdAPE and sMAPE
  return nan. Only the bias percentage has a fallback (0 when the mean of a non-empty
  actual series is zero).
\<close>

theorem degenerate_inputs:
  "calculate_mape (init [] [] None None) = Inr NaN
   \<and> calculate_smape (init [] [] None None) = Inr NaN
   \<and> calculate_wape (init [] [] None None) = Inr NaN
   \<and> calculate_mae (init [] [] None None) = Inl ValueError
   \<and> calculate_rmse (init [] [] None None) = Inl ValueError
   \<and> calculate_mdape (init [] [] None None) = Inr NaN
   \<and> calculate_r2 (init [] [] None None) = Inl ValueError
   \<and> calculate_bias (init [] [] None None) = Inr NaN
   \<and> calculate_bias_percentage (init [] [] None None) = Inr NaN
   \<and> calculate_mape (init [0, 0] [1, 2] None None) = Inr NaN
   \<and> calculate_mdape (init [0, 0] [1, 2] None None) = Inr NaN
   \<and> calculate_smape (init [0, 0] [0, 0] None None) = Inr NaN
   \<and> calculate_bias_percentage (init [0, 0] [1, 2] None None) = Inr (Fin 0)"
  by (simp add: calculate_mape_def calculate_smape_def calculate_wape_def calculate_mae_def
      calculate_rmse_def calculate_mdape_def calculate_r2_def calculate_bias_def
      calculate_bias_percentage_def eval_defs py_round_0)

subsection \<open>A forecast equal to the actual series\<close>












subsection \<open>The mapping of all metrics\<close>

lemma bind_err_Inr_iff: "bind_err m f = Inr y \<longleftrightarrow> (\<exists>x. m = Inr x \<and> f x = Inr y)"
  by (cases m) (simp_all add: bind_err_def)

text \<open>
  Claim C6, as stated: the mapping holds the eleven metrics of the specification, MASE
  included. The mapping has ten keys, and none is for MASE, although
  \<^verbatim>\<open>calculate_mase\<close> has a value on the same evaluator.
\<close>

theorem all_metrics_keys_counterexample:
  "map_sum id (map fst) (get_all_forecast_metrics (init [1, 3] [2, 4] None None))
     = Inr [''MAPE (%)'', ''sMAPE (%)'', ''WAPE (%)'', ''MAE (INR)'', ''RMSE (INR)'',
            ''MdAPE (%)'', r2_key, ''Bias (INR)'', ''Bias (%)'', ''PICP (%)'']
   \<and> calculate_mase (init [1, 3] [2, 4] None None) [2, 2] = Inr (Fin (1 / 2))"
  by (simp add: get_all_forecast_metrics_def calculate_mape_def calculate_smape_def
      calculate_wape_def calculate_mae_def calculate_rmse_def calculate_mdape_def
      calculate_r2_def calculate_bias_def calculate_bias_percentage_def calculate_picp_def
      calculate_mase_def eval_defs py_round_def rint_def)

text \<open>
  Claim C6, amended: for every evaluator, \<^verbatim>\<open>get_all_forecast_metrics\<close> returns the ten
  metrics MAPE, sMAPE, WAPE, MAE, RMSE, MdAPE, R-squared, Bias, Bias % and PICP as a
  named mapping (MASE, which needs a naive forecast, is not part of it); it returns
  exactly when the ten individually callable operations return, and each entry then
  equals the value of its operation.
\<close>

theorem all_metrics_mapping:
  "(calculate_mape e = Inr mape \<and> calculate_smape e = Inr smape
      \<and> calculate_wape e = Inr wape \<and> calculate_mae e = Inr mae
      \<and> calculate_rmse e = Inr rmse \<and> calculate_mdape e = Inr mdape
      \<and> calculate_r2 e = Inr r2 \<and> calculate_bias e = Inr bias
      \<and> calculate_bias_percentage e = Inr bias_pct \<and> calculate_picp e = Inr picp
    \<longrightarrow> get_all_forecast_metrics e =
          Inr [(''MAPE (%)'', Some mape), (''sMAPE (%)'', Some smape),
               (''WAPE (%)'', Some wape), (''MAE (INR)'', Some mae),
               (''RMSE (INR)'', Some rmse), (''MdAPE (%)'', Some mdape),
               (r2_key, Some r2), (''Bias (INR)'', Some bias),
               (''Bias (%)'', Some bias_pct), (''PICP (%)'', picp)])
   \<and> (get_all_forecast_metrics e = Inr m
    \<longrightarrow> (\<exists>mape' smape' wape' mae' rmse' mdape' r2' bias' bias_pct' picp'.
          calculate_mape e = Inr mape' \<and> calculate_smape e = Inr smape'
        \<and> calculate_wape e = Inr wape' \<and> calculate_mae e = Inr mae'
        \<and> calculate_rmse e = Inr rmse' \<and> calculate_mdape e = Inr mdape'
        \<and> calculate_r2 e = Inr r2' \<and> calculate_bias e = Inr bias'
        \<and> calculate_bias_percentage e = Inr bias_pct' \<and> calculate_picp e = Inr picp'
        \<and> m = [(''MAPE (%)'', Some mape'), (''sMAPE (%)'', Some smape'),
                (''WAPE (%)'', Some wape'), (''MAE (INR)'', Some mae'),
                (''RMSE (INR)'', Some rmse'), (''MdAPE (%)'', Some mdape'),
                (r2_key, Some r2'), (''Bias (INR)'', Some bias'),
                (''Bias (%)'', Some bias_pct'), (''PICP (%)'', picp')]))"
proof (intro conjI impI)
  assume "calculate_mape e = Inr mape \<and> calculate_smape e = Inr smape
      \<and> calculate_wape e = Inr wape \<and> calculate_mae e = Inr mae
      \<and> calculate_rmse e = Inr rmse \<and> calculate_mdape e = Inr mdape
      \<and> calculate_r2 e = Inr r2 \<and> calculate_bias e = Inr bias
      \<and> calculate_bias_percentage e = Inr bias_pct \<and> calculate_picp e = Inr picp"
  then show "get_all_forecast_metrics e =
          Inr [(''MAPE (%)'', Some mape), (''sMAPE (%)'', Some smape),
               (''WAPE (%)'', Some wape), (''MAE (INR)'', Some mae),
               (''RMSE (INR)'', Some rmse), (''MdAPE (%)'', Some mdape),
               (r2_key, Some r2), (''Bias (INR)'', Some bias),
               (''Bias (%)'', Some bias_pct), (''PICP (%)'', picp)]"
    by (simp add: get_all_forecast_metrics_def bind_err_def)
next
  assume "get_all_forecast_metrics e = Inr m"
  then show "\<exists>mape' smape' wape' mae' rmse' mdape' r2' bias' bias_pct' picp'.
          calculate_mape e = Inr mape' \<and> calculate_smape e = Inr smape'
        \<and> calculate_wape e = Inr wape' \<and> calculate_mae e = Inr mae'
        \<and> calculate_rmse e = Inr rmse' \<and> calculate_mdape e = Inr mdape'
        \<and> calculate_r2 e = Inr r2' \<and> calculate_bias e = Inr bias'
        \<and> calculate_bias_percentage e = Inr bias_pct' \<and> calculate_picp e = Inr picp'
        \<and> m = [(''MAPE (%)'', Some mape'), (''sMAPE (%)'', Some smape'),
                (''WAPE (%)'', Some wape'), (''MAE (INR)'', Some mae'),
                (''RMSE (INR)'', Some rmse'), (''MdAPE (%)'', Some mdape'),
                (r2_key, Some r2'), (''Bias (INR)'', Some bias'),
                (''Bias (%)'', Some bias_pct'), (''PICP (%)'', picp')]"
    unfolding get_all_forecast_metrics_def bind_err_Inr_iff by blast
qed

lemma sample_values:
  "calculate_mape (init [1, 3] [2, 4] None None) = Inr (Fin (6667 / 100))"
  "calculate_smape (init [1, 3] [2, 4] None None) = Inr (Fin (4762 / 100))"
  "calculate_wape (init [1, 3] [2, 4] None None) = Inr (Fin 50)"
  "calculate_mae (init [1, 3] [2, 4] None None) = Inr (Fin 1)"
  "calculate_rmse (init [1, 3] [2, 4] None None) = Inr (Fin 1)"
  "calculate_mdape (init [1, 3] [2, 4] None None) = Inr (Fin (6667 / 100))"
  "calculate_r2 (init [1, 3] [2, 4] None None) = Inr (Fin 0)"
  "calculate_bias (init [1, 3] [2, 4] None None) = Inr (Fin 1)"
  "calculate_bias_percentage (init [1, 3] [2, 4] None None) = Inr (Fin 50)"
  "calculate_picp (init [1, 3] [2, 4] None None) = Inr None"
  by (simp_all add: calculate_mape_def calculate_smape_def calculate_wape_def
      calculate_mae_def calculate_rmse_def calculate_mdape_def calculate_r2_def
      calculate_bias_def calculate_bias_percentage_def calculate_picp_def eval_defs
      py_round_def rint_def)

theorem all_metrics_mapping_witness:
  "calculate_mape (init [1, 3] [2, 4] None None) = Inr (Fin (6667 / 100))
   \<and> calculate_smape (init [1, 3] [2, 4] None None) = Inr (Fin (4762 / 100))
   \<and> calculate_wape (init [1, 3] [2, 4] None None) = Inr (Fin 50)
   \<and> calculate_mae (init [1, 3] [2, 4] None None) = Inr (Fin 1)
   \<and> calculate_rmse (init [1, 3] [2, 4] None None) = Inr (Fin 1)
   \<and> calculate_mdape (init [1, 3] [2, 4] None None) = Inr (Fin (6667 / 100))
   \<and> calculate_r2 (init [1, 3] [2, 4] None None) = Inr (Fin 0)
   \<and> calculate_bias (init [1, 3] [2, 4] None None) = Inr (Fin 1)
   \<and> calculate_bias_percentage (init [1, 3] [2, 4] None None) = Inr (Fin 50)
   \<and> calculate_picp (init [1, 3] [2, 4] None None) = Inr None
   \<and> get_all_forecast_metrics (init [1, 3] [2, 4] None None) =
       Inr [(''MAPE (%)'', Some (Fin (6667 / 100))), (''sMAPE (%)'', Some (Fin (4762 / 100))),
            (''WAPE (%)'', Some (Fin 50)), (''MAE (INR)'', Some (Fin 1)),
            (''RMSE (INR)'', Some (Fin 1)), (''MdAPE (%)'', Some (Fin (6667 / 100))),
            (r2_key, Some (Fin 0)), (''Bias (INR)'', Some (Fin 1)),
            (''Bias (%)'', Some (Fin 50)), (''PICP (%)'', None)]"
proof -
  let ?e = "init [1, 3] [2, 4] None None"
  have h: "calculate_mape ?e = Inr (Fin (6667 / 100)) \<and> calculate_smape ?e = Inr (Fin (4762 / 100))
      \<and> calculate_wape ?e = Inr (Fin 50) \<and> calculate_mae ?e = Inr (Fin 1)
      \<and> calculate_rmse ?e = Inr (Fin 1) \<and> calculate_mdape ?e = Inr (Fin (6667 / 100))
      \<and> calculate_r2 ?e = Inr (Fin 0) \<and> calculate_bias ?e = Inr (Fin 1)
      \<and> calculate_bias_percentage ?e = Inr (Fin 50) \<and> calculate_picp ?e = Inr None"
    by (simp only: sample_values simp_thms)
  from all_metrics_mapping [THEN conjunct1, THEN mp, OF h] h
  show ?thesis by (simp only: simp_thms)
qed

end
